theory Spec2Isabelle
  imports Complex_Main
begin

section \<open>Grading system: data model\<close>

text \<open>
  The embedding follows \<^verbatim>\<open>grading_system.py\<close>. Python's \<^verbatim>\<open>float\<close> is
  modelled by the exact reals: the arithmetic of the engine (\<^verbatim>\<open>+\<close>, \<^verbatim>\<open>*\<close>,
  \<^verbatim>\<open>/\<close>, comparison) is the arithmetic of \<^typ>\<open>real\<close>, so rounding error of binary
  floating point, infinities and NaN are outside the model. A \<^verbatim>\<open>dict\<close> is an
  association list in insertion order; a Python dict never holds a key twice, which is the
  invariant \<open>wf_course\<close> below. Strings are lists of (ASCII) characters.
\<close>

datatype error = ZeroDivisionError | StatisticsError

record student =
  student_id :: string
  student_name :: string
  scores :: "(string \<times> real) list"

record assignment =
  assignment_name :: string
  weight :: real
  max_score :: real

record course =
  course_code :: string
  title :: string
  students :: "(string \<times> student) list"
  assignments :: "(string \<times> assignment) list"

subsection \<open>Dictionaries in insertion order\<close>

text \<open>\<^verbatim>\<open>k in d\<close>, \<^verbatim>\<open>d.get(k, default)\<close> and \<^verbatim>\<open>d[k] = v\<close>: an existing key keeps
  its position, a new key goes to the end.\<close>

definition dict_contains :: "('k \<times> 'v) list \<Rightarrow> 'k \<Rightarrow> bool" where
  "dict_contains d k = (map_of d k \<noteq> None)"

definition dict_get :: "('k \<times> 'v) list \<Rightarrow> 'k \<Rightarrow> 'v \<Rightarrow> 'v" where
  "dict_get d k dflt = (case map_of d k of None \<Rightarrow> dflt | Some v \<Rightarrow> v)"

fun dict_set :: "'k \<Rightarrow> 'v \<Rightarrow> ('k \<times> 'v) list \<Rightarrow> ('k \<times> 'v) list" where
  "dict_set k v [] = [(k, v)]"
| "dict_set k v ((k', v') # d) = (if k' = k then (k, v) # d else (k', v') # dict_set k v d)"

text \<open>Update of the value stored under an existing key (\<^verbatim>\<open>d[k].field = ...\<close>); the
  callers test \<^verbatim>\<open>k in d\<close> first.\<close>

fun dict_modify :: "'k \<Rightarrow> ('v \<Rightarrow> 'v) \<Rightarrow> ('k \<times> 'v) list \<Rightarrow> ('k \<times> 'v) list" where
  "dict_modify k f [] = []"
| "dict_modify k f ((k', v') # d) = (if k' = k then (k', f v') # d else (k', v') # dict_modify k f d)"

definition wf_course :: "course \<Rightarrow> bool" where
  "wf_course c = (distinct (map fst (students c)) \<and> distinct (map fst (assignments c)))"

section \<open>Letter grades\<close>

definition numeric_to_letter :: "real \<Rightarrow> string" where
  "numeric_to_letter score =
     (if score \<ge> 90 then ''A''
      else if score \<ge> 80 then ''B''
      else if score \<ge> 70 then ''C''
      else if score \<ge> 60 then ''D''
      else ''F'')"

section \<open>Weighted totals\<close>

text \<open>\<^verbatim>\<open>x / y\<close> on floats raises \<^verbatim>\<open>ZeroDivisionError\<close> when \<^verbatim>\<open>y\<close> is zero.\<close>

definition truediv :: "real \<Rightarrow> real \<Rightarrow> error + real" where
  "truediv x y = (if y = 0 then Inl ZeroDivisionError else Inr (x / y))"

text \<open>\<^verbatim>\<open>sum(xs)\<close> adds from the left, starting at 0.\<close>

definition py_sum :: "real list \<Rightarrow> real" where
  "py_sum xs = foldl (+) 0 xs"

text \<open>\<^verbatim>\<open>round(x, 2)\<close>: the nearest multiple of 1/100, a tie going to the even one.\<close>

definition py_round2 :: "real \<Rightarrow> real" where
  "py_round2 x =
     (let y = x * 100; f = \<lfloor>y\<rfloor>; d = y - of_int f
      in of_int (if d < 1 / 2 then f else if 1 / 2 < d then f + 1
                 else if even f then f else f + 1) / 100)"

text \<open>Lines 169-172: the dict of weights, its sum, and the divisor that replaces a zero sum.\<close>

definition weights_of :: "course \<Rightarrow> (string \<times> real) list" where
  "weights_of c = fold (\<lambda>(name, a) ws. dict_set name (weight a) ws) (assignments c) []"

definition total_weight :: "course \<Rightarrow> real" where
  "total_weight c = py_sum (map snd (weights_of c))"

definition weight_divisor :: "course \<Rightarrow> real" where
  "weight_divisor c = (if total_weight c = 0 then 1 else total_weight c)"

text \<open>Lines 177-179: the percentage of one assignment for one student.\<close>

definition percentage :: "student \<Rightarrow> string \<Rightarrow> assignment \<Rightarrow> error + real" where
  "percentage st aname a =
     (let score = dict_get (scores st) aname 0
      in if max_score a \<noteq> 0
         then (case truediv score (max_score a) of Inl e \<Rightarrow> Inl e | Inr q \<Rightarrow> Inr (q * 100))
         else Inr 0)"

text \<open>Line 180: what one assignment adds to \<^verbatim>\<open>total\<close>.\<close>

definition contribution :: "real \<Rightarrow> student \<Rightarrow> string \<Rightarrow> assignment \<Rightarrow> error + real" where
  "contribution tw st aname a =
     (case percentage st aname a of Inl e \<Rightarrow> Inl e
      | Inr perc \<Rightarrow> (case truediv (weight a) tw of Inl e \<Rightarrow> Inl e | Inr r \<Rightarrow> Inr (perc * r)))"

text \<open>Lines 175-180: the inner loop over the catalog, \<^verbatim>\<open>total\<close> as accumulator.\<close>

fun accumulate_total :: "real \<Rightarrow> student \<Rightarrow> (string \<times> assignment) list \<Rightarrow> real \<Rightarrow> error + real" where
  "accumulate_total tw st [] tot = Inr tot"
| "accumulate_total tw st ((aname, a) # rest) tot =
     (case contribution tw st aname a of Inl e \<Rightarrow> Inl e
      | Inr x \<Rightarrow> accumulate_total tw st rest (tot + x))"

text \<open>Lines 173-183: the outer loop over the students, \<^verbatim>\<open>results\<close> as accumulator.\<close>

fun score_students :: "real \<Rightarrow> (string \<times> assignment) list \<Rightarrow> (string \<times> student) list
    \<Rightarrow> (string \<times> real) list \<Rightarrow> error + (string \<times> real) list" where
  "score_students tw cat [] results = Inr results"
| "score_students tw cat ((sid, st) # rest) results =
     (case accumulate_total tw st cat 0 of Inl e \<Rightarrow> Inl e
      | Inr tot \<Rightarrow> score_students tw cat rest (dict_set sid (py_round2 tot) results))"

definition calculate_weighted_scores :: "course \<Rightarrow> error + (string \<times> real) list" where
  "calculate_weighted_scores c =
     score_students (weight_divisor c) (assignments c) (students c) []"

section \<open>Outlier detection\<close>

text \<open>
  \<^verbatim>\<open>statistics.mean\<close> and \<^verbatim>\<open>statistics.stdev\<close> of the Python standard library: the
  arithmetic mean, and the square root of the sample variance (divisor \<open>n - 1\<close>). Both
  raise \<^verbatim>\<open>StatisticsError\<close> on too few data points.
\<close>

definition statistics_mean :: "real list \<Rightarrow> error + real" where
  "statistics_mean xs =
     (if xs = [] then Inl StatisticsError else Inr (sum_list xs / real (length xs)))"

definition statistics_stdev :: "real list \<Rightarrow> error + real" where
  "statistics_stdev xs =
     (if length xs < 2 then Inl StatisticsError
      else let m = sum_list xs / real (length xs)
           in Inr (sqrt ((\<Sum>x\<leftarrow>xs. (x - m)\<^sup>2) / real (length xs - 1))))"

text \<open>Lines 189-192: the pairs \<^verbatim>\<open>(s.id, s.scores[assignment_name])\<close> of the students
  that have the key, in the order of \<^verbatim>\<open>self.students.values()\<close>.\<close>

fun collect_scores :: "string \<Rightarrow> (string \<times> student) list \<Rightarrow> (string \<times> real) list
    \<Rightarrow> (string \<times> real) list" where
  "collect_scores aname [] acc = acc"
| "collect_scores aname ((k, s) # rest) acc =
     (case map_of (scores s) aname of
        None \<Rightarrow> collect_scores aname rest acc
      | Some v \<Rightarrow> collect_scores aname rest (acc @ [(student_id s, v)]))"

text \<open>Lines 200-205: the loop that appends to \<^verbatim>\<open>outliers\<close>.\<close>

fun flag_outliers :: "real \<Rightarrow> real \<Rightarrow> real \<Rightarrow> (string \<times> real) list \<Rightarrow> (string \<times> real) list
    \<Rightarrow> (string \<times> real) list" where
  "flag_outliers thr mean stdev [] outliers = outliers"
| "flag_outliers thr mean stdev ((sid, val) # rest) outliers =
     (if stdev = 0 then flag_outliers thr mean stdev rest outliers
      else if \<bar>val - mean\<bar> > thr * stdev
           then flag_outliers thr mean stdev rest (outliers @ [(sid, val)])
           else flag_outliers thr mean stdev rest outliers)"

definition detect_outliers :: "course \<Rightarrow> string \<Rightarrow> real \<Rightarrow> error + (string \<times> real) list" where
  "detect_outliers c aname threshold_stddev =
     (let scs = collect_scores aname (students c) []
      in if scs = [] then Inr []
         else let vals = map snd scs
              in if length vals < 2 then Inr []
                 else (case statistics_mean vals of Inl e \<Rightarrow> Inl e
                       | Inr mean \<Rightarrow>
                           (case statistics_stdev vals of Inl e \<Rightarrow> Inl e
                            | Inr stdev \<Rightarrow> Inr (flag_outliers threshold_stddev mean stdev scs []))))"

section \<open>Bulk ingestion\<close>

subsection \<open>Strings\<close>

text \<open>\<^verbatim>\<open>str.strip()\<close> and \<^verbatim>\<open>str.lower()\<close> on ASCII text: the whitespace characters
  are space, tab, newline, vertical tab, form feed, carriage return and the four separators
  \<open>0x1C\<close> to \<open>0x1F\<close>.\<close>

definition isspace :: "char \<Rightarrow> bool" where
  "isspace ch = (ch \<in> set [CHR '' '', CHR 0x09, CHR 0x0A, CHR 0x0B, CHR 0x0C, CHR 0x0D,
                            CHR 0x1C, CHR 0x1D, CHR 0x1E, CHR 0x1F])"

definition strip :: "string \<Rightarrow> string" where
  "strip s = rev (dropWhile isspace (rev (dropWhile isspace s)))"

definition lower_char :: "char \<Rightarrow> char" where
  "lower_char ch =
     (let n = (of_char ch :: nat) in if 65 \<le> n \<and> n \<le> 90 then char_of (n + 32) else ch)"

definition lower :: "string \<Rightarrow> string" where
  "lower s = map lower_char s"

text \<open>
  \<^verbatim>\<open>float(s)\<close> either returns a number or raises \<^verbatim>\<open>ValueError\<close>. The ingestion
  functions take the conversion as a parameter \<open>to_float\<close>, so what is proved about them
  holds for every conversion. \<open>decimal_float\<close> is the conversion on plain decimal literals
  (sign, digits, point, digits), where it agrees with Python; it is used on the worked
  examples only.
\<close>

definition is_digit :: "char \<Rightarrow> bool" where
  "is_digit ch = (ch \<in> set ''0123456789'')"

definition digits_value :: "string \<Rightarrow> nat" where
  "digits_value ds = foldl (\<lambda>n ch. 10 * n + (of_char ch - 48)) 0 ds"

definition decimal_float :: "string \<Rightarrow> real option" where
  "decimal_float s =
     (let t = strip s;
          neg = (t \<noteq> [] \<and> hd t = CHR ''-'');
          body = (if t \<noteq> [] \<and> (hd t = CHR ''-'' \<or> hd t = CHR ''+'') then tl t else t);
          ip = takeWhile is_digit body;
          rest = dropWhile is_digit body
      in if rest \<noteq> [] \<and> hd rest \<noteq> CHR ''.'' then None
         else let fr = tl rest
              in if \<not> list_all is_digit fr \<or> (ip = [] \<and> fr = []) then None
                 else Some ((if neg then - 1 else 1)
                            * (real (digits_value ip) + real (digits_value fr) / 10 ^ length fr)))"

subsection \<open>The two writes of the ingestion loops\<close>

text \<open>Lines 136-138 and 156-157: an unknown assignment name is registered with
  \<^verbatim>\<open>Assignment(aname, 0.0)\<close>, whose \<^verbatim>\<open>max_score\<close> defaults to 100.\<close>

definition register_assignment :: "string \<Rightarrow> course \<Rightarrow> course" where
  "register_assignment aname c =
     (if \<not> dict_contains (assignments c) aname
      then c\<lparr>assignments :=
             dict_set aname \<lparr>assignment_name = aname, weight = 0, max_score = 100\<rparr> (assignments c)\<rparr>
      else c)"

text \<open>Lines 139 and 158: \<^verbatim>\<open>self.students[sid].scores[aname] = score\<close>.\<close>

definition set_score :: "string \<Rightarrow> string \<Rightarrow> real \<Rightarrow> course \<Rightarrow> course" where
  "set_score sid aname score c =
     c\<lparr>students := dict_modify sid (\<lambda>st. st\<lparr>scores := dict_set aname score (scores st)\<rparr>) (students c)\<rparr>"

record import_state =
  crs :: course
  processed :: nat
  failed :: nat

subsection \<open>Wide format\<close>

text \<open>Lines 127-139: one cell of a wide row; \<open>i\<close> is the column of the assignment.\<close>

definition wide_cell :: "(string \<Rightarrow> real option) \<Rightarrow> string \<Rightarrow> string list \<Rightarrow> nat \<times> string
    \<Rightarrow> course \<Rightarrow> course" where
  "wide_cell to_float sid row cell c =
     (case cell of (i, aname) \<Rightarrow>
        if i \<ge> length row then c
        else let val = strip (row ! i)
             in if val = [] then c
                else (case to_float val of
                        None \<Rightarrow> c
                      | Some score \<Rightarrow> set_score sid aname score (register_assignment aname c)))"

text \<open>\<^verbatim>\<open>enumerate(assignment_names, start=1)\<close>.\<close>

definition enumerate1 :: "'a list \<Rightarrow> (nat \<times> 'a) list" where
  "enumerate1 xs = zip [1 ..< Suc (length xs)] xs"

text \<open>Lines 121-140: one data row of the wide format.\<close>

definition wide_row :: "(string \<Rightarrow> real option) \<Rightarrow> string list \<Rightarrow> string list
    \<Rightarrow> import_state \<Rightarrow> import_state" where
  "wide_row to_float assignment_names row s =
     (if row = [] then s
      else let sid = strip (row ! 0)
           in if \<not> dict_contains (students (crs s)) sid then s\<lparr>failed := failed s + 1\<rparr>
              else s\<lparr>crs := fold (wide_cell to_float sid row) (enumerate1 assignment_names) (crs s),
                     processed := processed s + 1\<rparr>)"

subsection \<open>Narrow format\<close>

text \<open>Lines 143-159: one row of the narrow format.\<close>

definition narrow_row :: "(string \<Rightarrow> real option) \<Rightarrow> string list \<Rightarrow> import_state \<Rightarrow> import_state" where
  "narrow_row to_float row s =
     (if length row < 3 then s\<lparr>failed := failed s + 1\<rparr>
      else let sid = strip (row ! 0); aname = strip (row ! 1); score_str = strip (row ! 2)
           in (case to_float score_str of
                 None \<Rightarrow> s\<lparr>failed := failed s + 1\<rparr>
               | Some score \<Rightarrow>
                   if \<not> dict_contains (students (crs s)) sid then s\<lparr>failed := failed s + 1\<rparr>
                   else s\<lparr>crs := set_score sid aname score (register_assignment aname (crs s)),
                          processed := processed s + 1\<rparr>))"

subsection \<open>The ingestion entry point\<close>

text \<open>Line 118: the header test on the first row.\<close>

definition wide_format :: "string list list \<Rightarrow> bool" where
  "wide_format rows = (rows \<noteq> [] \<and> hd rows \<noteq> [] \<and> lower (strip (hd rows ! 0)) = ''id'')"

text \<open>
  Lines 109-161, on the rows that \<^verbatim>\<open>csv.reader\<close> returns. The result holds the course
  after the call and the pair \<^verbatim>\<open>(processed, failed)\<close>. Reading the file and
  \<^verbatim>\<open>self.save()\<close> are outside the model.
\<close>

definition bulk_import_grades_csv :: "(string \<Rightarrow> real option) \<Rightarrow> string list list \<Rightarrow> course
    \<Rightarrow> import_state" where
  "bulk_import_grades_csv to_float rows c =
     (let start = \<lparr>crs = c, processed = 0, failed = 0\<rparr>
      in if rows = [] then start
         else let first = hd rows
              in if first \<noteq> [] \<and> lower (strip (first ! 0)) = ''id''
                 then let headers = map strip first; assignment_names = tl headers
                      in fold (wide_row to_float assignment_names) (tl rows) start
                 else fold (narrow_row to_float) rows start)"

section \<open>Example courses\<close>

text \<open>The course of \<^verbatim>\<open>demo_setup_example\<close> (lines 404-415).\<close>

definition demo_course :: course where
  "demo_course =
     \<lparr>course_code = ''demo101'', title = ''Demo Course'',
      students =
        [(''s1'', \<lparr>student_id = ''s1'', student_name = ''Alice'',
                  scores = [(''HW1'', 18), (''Exam'', 85)]\<rparr>),
         (''s2'', \<lparr>student_id = ''s2'', student_name = ''Bob'',
                  scores = [(''HW1'', 12), (''Exam'', 70)]\<rparr>),
         (''s3'', \<lparr>student_id = ''s3'', student_name = ''Charlie'',
                  scores = [(''HW1'', 19), (''Exam'', 95)]\<rparr>)],
      assignments =
        [(''HW1'', \<lparr>assignment_name = ''HW1'', weight = 3 / 10, max_score = 20\<rparr>),
         (''Exam'', \<lparr>assignment_name = ''Exam'', weight = 7 / 10, max_score = 100\<rparr>)]\<rparr>"

text \<open>Further courses for the worked examples: weights that cancel, weights that are all
  zero (as auto-registration leaves them), a score above the maximum, and an assignment
  whose maximum is zero.\<close>

definition offset_course :: course where
  "offset_course =
     \<lparr>course_code = ''c1'', title = ''Offsetting weights'',
      students = [(''s1'', \<lparr>student_id = ''s1'', student_name = ''Alice'',
                            scores = [(''Exam'', 100)]\<rparr>)],
      assignments =
        [(''Exam'', \<lparr>assignment_name = ''Exam'', weight = 1, max_score = 100\<rparr>),
         (''Penalty'', \<lparr>assignment_name = ''Penalty'', weight = - 1, max_score = 100\<rparr>)]\<rparr>"

definition placeholder_course :: course where
  "placeholder_course =
     \<lparr>course_code = ''c2'', title = ''Placeholder weights'',
      students = [(''s1'', \<lparr>student_id = ''s1'', student_name = ''Alice'',
                            scores = [(''HW1'', 18)]\<rparr>),
                  (''s2'', \<lparr>student_id = ''s2'', student_name = ''Bob'', scores = []\<rparr>)],
      assignments =
        [(''HW1'', \<lparr>assignment_name = ''HW1'', weight = 0, max_score = 100\<rparr>),
         (''Quiz'', \<lparr>assignment_name = ''Quiz'', weight = 0, max_score = 100\<rparr>)]\<rparr>"

definition extra_credit_course :: course where
  "extra_credit_course =
     \<lparr>course_code = ''c3'', title = ''Extra credit'',
      students = [(''s1'', \<lparr>student_id = ''s1'', student_name = ''Alice'',
                            scores = [(''Exam'', 150)]\<rparr>)],
      assignments =
        [(''Exam'', \<lparr>assignment_name = ''Exam'', weight = 1, max_score = 100\<rparr>)]\<rparr>"

definition ungraded_course :: course where
  "ungraded_course =
     \<lparr>course_code = ''c4'', title = ''Ungraded survey'',
      students = [(''s1'', \<lparr>student_id = ''s1'', student_name = ''Alice'',
                            scores = [(''Survey'', 7), (''Exam'', 80)]\<rparr>)],
      assignments =
        [(''Survey'', \<lparr>assignment_name = ''Survey'', weight = 1 / 2, max_score = 0\<rparr>),
         (''Exam'', \<lparr>assignment_name = ''Exam'', weight = 1 / 2, max_score = 100\<rparr>)]\<rparr>"

section \<open>Outlier detection as the specification words it\<close>

text \<open>
  The specification's reading of \<^verbatim>\<open>detect_outliers\<close>, to compare the code with: the
  students that have a score recorded for the assignment, in stored order; the sample mean;
  the sample standard deviation with divisor \<open>N - 1\<close>; and the pairs whose distance from
  the mean is strictly more than the threshold times that deviation. \<open>quiz_course\<close> is a
  course for the worked examples.
\<close>

definition spec_recorded :: "course \<Rightarrow> string \<Rightarrow> (string \<times> real) list" where
  "spec_recorded c aname =
     List.map_filter (\<lambda>(k, s). map_option (Pair (student_id s)) (map_of (scores s) aname))
       (students c)"

definition spec_sample_mean :: "real list \<Rightarrow> real" where
  "spec_sample_mean xs = sum_list xs / real (length xs)"

definition spec_sample_stdev :: "real list \<Rightarrow> real" where
  "spec_sample_stdev xs =
     sqrt ((\<Sum>x\<leftarrow>xs. (x - spec_sample_mean xs)\<^sup>2) / (real (length xs) - 1))"

definition spec_outliers :: "course \<Rightarrow> string \<Rightarrow> real \<Rightarrow> (string \<times> real) list" where
  "spec_outliers c aname thr =
     (let scs = spec_recorded c aname; vals = map snd scs
      in if length scs < 2 then []
         else filter (\<lambda>(sid, v). \<bar>v - spec_sample_mean vals\<bar> > thr * spec_sample_stdev vals) scs)"

definition quiz_course :: "real \<Rightarrow> real \<Rightarrow> real \<Rightarrow> course" where
  "quiz_course x y z =
     \<lparr>course_code = ''c5'', title = ''Quiz scores'',
      students =
        [(''s1'', \<lparr>student_id = ''s1'', student_name = ''Alice'', scores = [(''Quiz'', x)]\<rparr>),
         (''s2'', \<lparr>student_id = ''s2'', student_name = ''Bob'', scores = [(''Quiz'', y)]\<rparr>),
         (''s3'', \<lparr>student_id = ''s3'', student_name = ''Charlie'', scores = [(''Essay'', 50)]\<rparr>),
         (''s4'', \<lparr>student_id = ''s4'', student_name = ''Dana'', scores = [(''Quiz'', z)]\<rparr>)],
      assignments =
        [(''Quiz'', \<lparr>assignment_name = ''Quiz'', weight = 1, max_score = 10\<rparr>),
         (''Essay'', \<lparr>assignment_name = ''Essay'', weight = 1, max_score = 100\<rparr>)]\<rparr>"

section \<open>Ingestion as the specification words it\<close>

text \<open>
  The specification's test for a narrow row that is recorded: at least 3 fields, a numeric
  score field and a known student id; every other row is a failed row.
  \<open>narrow_example_rows\<close> is the specification's example of three rows: a good one, one
  with an unknown student, one with a score that is not a number.
\<close>

definition spec_narrow_ok :: "(string \<Rightarrow> real option) \<Rightarrow> course \<Rightarrow> string list \<Rightarrow> bool" where
  "spec_narrow_ok to_float c row =
     (3 \<le> length row \<and> to_float (strip (row ! 2)) \<noteq> None
      \<and> dict_contains (students c) (strip (row ! 0)))"

definition narrow_example_rows :: "string list list" where
  "narrow_example_rows =
     [[''s1'', ''HW1'', ''15''], [''zz'', ''HW1'', ''15''], [''s2'', ''Quiz'', ''abc'']]"

text \<open>
  The specification's reading of auto-registration: the catalog after ingestion is the
  catalog before it, followed by entries of weight 0 and \<open>max_score\<close> 100 under names
  that were absent. \<open>wide_example_rows\<close> is a wide-format input with a header, a full
  row, a row of an unknown student, an empty row, a row without a valid cell and a short
  row.
\<close>

definition spec_registered_only :: "(string \<times> assignment) list \<Rightarrow> (string \<times> assignment) list \<Rightarrow> bool" where
  "spec_registered_only before after =
     (take (length before) after = before
      \<and> list_all (\<lambda>(n, a). a = \<lparr>assignment_name = n, weight = 0, max_score = 100\<rparr>
                          \<and> \<not> dict_contains before n)
           (drop (length before) after))"

definition wide_example_rows :: "string list list" where
  "wide_example_rows =
     [['' ID'', ''HW1'', ''Quiz ''], [''s1'', ''15'', ''7''], [''zz'', ''1'', ''2''], [],
      [''s2'', ''abc'', []], [''s3'']]"

text \<open>
  Shorthand for the re-ingestion argument: a list of writes \<^verbatim>\<open>d[k] = v\<close> applied from
  left to right, and the same on the scores of one student.
\<close>

abbreviation set_all :: "('k \<times> 'v) list \<Rightarrow> ('k \<times> 'v) list \<Rightarrow> ('k \<times> 'v) list" where
  "set_all ws d \<equiv> fold (\<lambda>(k, v). dict_set k v) ws d"

abbreviation write_scores :: "(string \<times> real) list \<Rightarrow> student \<Rightarrow> student" where
  "write_scores ws st \<equiv> st\<lparr>scores := set_all ws (scores st)\<rparr>"

section \<open>Properties\<close>

subsection \<open>Dictionaries, sums and rounding\<close>

lemma dict_set_fresh: "k \<notin> fst ` set d \<Longrightarrow> dict_set k v d = d @ [(k, v)]"
  by (induction d) auto

lemma py_sum_foldl: "foldl (+) a xs = a + sum_list (xs :: real list)"
  by (induction xs arbitrary: a) auto

lemma py_sum_sum_list: "py_sum xs = sum_list xs"
  by (simp add: py_sum_def py_sum_foldl)

lemma fold_dict_set_distinct:
  "distinct (map fst xs) \<Longrightarrow> fst ` set acc \<inter> fst ` set xs = {} \<Longrightarrow>
   fold (\<lambda>(k, v) d. dict_set k (f v) d) xs acc = acc @ map (\<lambda>(k, v). (k, f v)) xs"
proof (induction xs arbitrary: acc)
  case Nil
  then show ?case by simp
next
  case (Cons x xs)
  obtain k v where x: "x = (k, v)" by (cases x)
  from Cons.prems have fresh: "k \<notin> fst ` set acc" by (auto simp: x)
  have "fst ` set (acc @ [(k, f v)]) \<inter> fst ` set xs = {}"
    using Cons.prems by (auto simp: x)
  with Cons.IH [of "acc @ [(k, f v)]"] Cons.prems
  show ?case by (simp add: x dict_set_fresh [OF fresh])
qed

lemma weights_of_wf:
  "distinct (map fst (assignments c)) \<Longrightarrow>
   weights_of c = map (\<lambda>(n, a). (n, weight a)) (assignments c)"
  unfolding weights_of_def using fold_dict_set_distinct [of "assignments c" "[]" weight] by simp

lemma total_weight_wf:
  "distinct (map fst (assignments c)) \<Longrightarrow>
   total_weight c = (\<Sum>(n, a)\<leftarrow>assignments c. weight a)"
  by (simp add: total_weight_def weights_of_wf py_sum_sum_list o_def split_def)

lemma weight_divisor_nonzero: "weight_divisor c \<noteq> 0"
  by (simp add: weight_divisor_def)

lemma percentage_value:
  "percentage st n a =
     Inr (if max_score a = 0 then 0 else dict_get (scores st) n 0 / max_score a * 100)"
  by (simp add: percentage_def truediv_def)

lemma contribution_value:
  "tw \<noteq> 0 \<Longrightarrow> contribution tw st n a =
     Inr ((if max_score a = 0 then 0 else dict_get (scores st) n 0 / max_score a * 100)
          * (weight a / tw))"
  by (simp add: contribution_def percentage_value truediv_def)

lemma accumulate_total_value:
  "tw \<noteq> 0 \<Longrightarrow> accumulate_total tw st cat acc =
     Inr (acc + (\<Sum>(n, a)\<leftarrow>cat.
       (if max_score a = 0 then 0 else dict_get (scores st) n 0 / max_score a * 100)
       * (weight a / tw)))"
  by (induction cat arbitrary: acc) (auto simp: contribution_value)

lemma score_students_value:
  "tw \<noteq> 0 \<Longrightarrow> distinct (map fst sts) \<Longrightarrow> fst ` set acc \<inter> fst ` set sts = {} \<Longrightarrow>
   score_students tw cat sts acc =
     Inr (acc @ map (\<lambda>(sid, st). (sid, py_round2 (\<Sum>(n, a)\<leftarrow>cat.
       (if max_score a = 0 then 0 else dict_get (scores st) n 0 / max_score a * 100)
       * (weight a / tw)))) sts)"
proof (induction sts arbitrary: acc)
  case Nil
  then show ?case by simp
next
  case (Cons x sts)
  obtain sid st where x: "x = (sid, st)" by (cases x)
  from Cons.prems have fresh: "sid \<notin> fst ` set acc" by (auto simp: x)
  let ?t = "py_round2 (\<Sum>(n, a)\<leftarrow>cat.
       (if max_score a = 0 then 0 else dict_get (scores st) n 0 / max_score a * 100)
       * (weight a / tw))"
  have disj: "fst ` set (acc @ [(sid, ?t)]) \<inter> fst ` set sts = {}"
    using Cons.prems by (auto simp: x)
  have "score_students tw cat (x # sts) acc = score_students tw cat sts (acc @ [(sid, ?t)])"
    using Cons.prems(1) by (simp add: x accumulate_total_value dict_set_fresh [OF fresh])
  also have "\<dots> = Inr ((acc @ [(sid, ?t)]) @ map (\<lambda>(sid, st). (sid, py_round2 (\<Sum>(n, a)\<leftarrow>cat.
       (if max_score a = 0 then 0 else dict_get (scores st) n 0 / max_score a * 100)
       * (weight a / tw)))) sts)"
    using Cons.IH [OF Cons.prems(1) _ disj] Cons.prems(2) by (simp add: x)
  finally show ?case by (simp add: x)
qed

lemma calculate_weighted_scores_closed:
  "distinct (map fst (students c)) \<Longrightarrow>
   calculate_weighted_scores c =
     Inr (map (\<lambda>(sid, st). (sid, py_round2 (\<Sum>(n, a)\<leftarrow>assignments c.
       (if max_score a = 0 then 0 else dict_get (scores st) n 0 / max_score a * 100)
       * (weight a / weight_divisor c)))) (students c))"
  unfolding calculate_weighted_scores_def
  using score_students_value [OF weight_divisor_nonzero, of "students c" "[]" c "assignments c"]
  by simp

lemma score_students_total:
  "tw \<noteq> 0 \<Longrightarrow> \<exists>res. score_students tw cat sts acc = Inr res"
  by (induction sts arbitrary: acc) (auto simp: accumulate_total_value)

lemma map_of_dict_set: "map_of (dict_set k v d) = (map_of d)(k \<mapsto> v)"
  by (induction d) auto

lemma dict_get_dict_set:
  "dict_get (dict_set k v d) k' dflt = (if k' = k then v else dict_get d k' dflt)"
  by (simp add: dict_get_def map_of_dict_set)

lemma map_fst_dict_modify: "map fst (dict_modify k f d) = map fst d"
  by (induction d) auto

lemma map_dict_modify_cong:
  "(\<And>v. (k, v) \<in> set d \<Longrightarrow> g (k, f v) = g (k, v)) \<Longrightarrow> map g (dict_modify k f d) = map g d"
  by (induction d) auto

lemma weight_divisor_students_update [simp]:
  "weight_divisor (c\<lparr>students := x\<rparr>) = weight_divisor c"
  by (simp add: weight_divisor_def total_weight_def weights_of_def)

lemma py_round2_zero: "py_round2 0 = 0"
  by (simp add: py_round2_def)

lemma py_round2_le_100:
  assumes "x \<le> 100" shows "py_round2 x \<le> 100"
proof -
  let ?y = "x * 100"
  let ?f = "\<lfloor>?y\<rfloor>"
  have y: "?y \<le> 10000" using assms by simp
  then have f: "?f \<le> 10000" by (simp add: floor_le_iff)
  have f1: "?f + 1 \<le> 10000" if "?y - of_int ?f > 0"
  proof -
    from that have "of_int ?f < ?y" by simp
    with y have "of_int ?f < (10000::real)" by linarith
    then have "?f < 10000" by linarith
    then show ?thesis by simp
  qed
  have "(if ?y - of_int ?f < 1 / 2 then ?f else if 1 / 2 < ?y - of_int ?f then ?f + 1
         else if even ?f then ?f else ?f + 1) \<le> 10000"
    using f f1 by (auto split: if_splits)
  then have "real_of_int (if ?y - of_int ?f < 1 / 2 then ?f else if 1 / 2 < ?y - of_int ?f then ?f + 1
         else if even ?f then ?f else ?f + 1) \<le> 10000"
    by linarith
  then show ?thesis
    by (simp add: py_round2_def Let_def)
qed

lemma sum_list_zero_nonneg:
  "(\<And>x. x \<in> set xs \<Longrightarrow> 0 \<le> (f x :: real)) \<Longrightarrow> (\<Sum>x\<leftarrow>xs. f x) = 0 \<Longrightarrow> x \<in> set xs \<Longrightarrow> f x = 0"
proof (induction xs)
  case Nil
  then show ?case by simp
next
  case (Cons y ys)
  have nn: "0 \<le> (\<Sum>x\<leftarrow>ys. f x)" by (rule sum_list_nonneg) (use Cons.prems(1) in auto)
  have y0: "0 \<le> f y" using Cons.prems(1) by simp
  from Cons.prems(2) have "f y + (\<Sum>x\<leftarrow>ys. f x) = 0" by simp
  with nn y0 have "f y = 0" "(\<Sum>x\<leftarrow>ys. f x) = 0" by linarith+
  with Cons show ?case by auto
qed


lemma weighted_sum_le_100:
  fixes p w :: "'a \<Rightarrow> real"
  assumes p: "\<And>x. x \<in> set xs \<Longrightarrow> p x \<le> 100"
    and w: "\<And>x. x \<in> set xs \<Longrightarrow> 0 \<le> w x"
    and d: "d = (if (\<Sum>x\<leftarrow>xs. w x) = 0 then 1 else (\<Sum>x\<leftarrow>xs. w x))"
  shows "(\<Sum>x\<leftarrow>xs. p x * (w x / d)) \<le> 100"
proof -
  have sw: "0 \<le> (\<Sum>x\<leftarrow>xs. w x)" by (rule sum_list_nonneg) (use w in auto)
  have dpos: "0 < d" using sw d by (auto split: if_splits)
  have "(\<Sum>x\<leftarrow>xs. p x * (w x / d)) \<le> (\<Sum>x\<leftarrow>xs. 100 * (w x / d))"
  proof (rule sum_list_mono)
    fix x assume x: "x \<in> set xs"
    have "0 \<le> w x / d" using w [OF x] dpos by simp
    with p [OF x] show "p x * (w x / d) \<le> 100 * (w x / d)" by (rule mult_right_mono)
  qed
  also have "\<dots> = 100 * ((\<Sum>x\<leftarrow>xs. w x) / d)"
    by (simp add: sum_list_const_mult divide_inverse sum_list_mult_const)
  also have "\<dots> \<le> 100" using d dpos by (auto split: if_splits)
  finally show ?thesis .
qed

lemma sum_list_all_zero:
  "(\<And>x. x \<in> set xs \<Longrightarrow> f x = (0::real)) \<Longrightarrow> (\<Sum>x\<leftarrow>xs. f x) = 0"
  by (induction xs) auto

lemmas eval_defs = calculate_weighted_scores_def weight_divisor_def total_weight_def
      weights_of_def py_sum_def contribution_def percentage_def truediv_def dict_get_def py_round2_def

lemma students_set_score:
  "students (set_score sid aname v c) =
     dict_modify sid (\<lambda>st. st\<lparr>scores := dict_set aname v (scores st)\<rparr>) (students c)"
  and assignments_set_score: "assignments (set_score sid aname v c) = assignments c"
  and weight_divisor_set_score: "weight_divisor (set_score sid aname v c) = weight_divisor c"
  by (simp_all add: set_score_def)

lemma map_of_distinct_in:
  "distinct (map fst d) \<Longrightarrow> (k, v) \<in> set d \<Longrightarrow> map_of d k = Some v"
  by simp

subsection \<open>Weighted totals\<close>











subsection \<open>Letter grades\<close>


text \<open>
  Claim C7, as stated: \<open>numeric_to_letter\<close> maps 90.0, 89.99, 80.0, 69.99, 60.0 and 59.99
  to A, B, B, C, D and F. The fourth value fails: 69.99 is below 70 and at least 60, so
  the code returns D for it.
\<close>

theorem numeric_to_letter_6999_counterexample:
  "numeric_to_letter (6999 / 100) = ''D'' \<and> numeric_to_letter (6999 / 100) \<noteq> ''C''"
  by (simp add: numeric_to_letter_def)

text \<open>
  Claim C7, amended. \<open>numeric_to_letter\<close> maps a total \<open>t\<close> to A when \<open>t \<ge> 90\<close>, to B
  when \<open>80 \<le> t < 90\<close>, to C when \<open>70 \<le> t < 80\<close>, to D when \<open>60 \<le> t < 70\<close> and to F
  otherwise; the lower bounds are inclusive, so 90.0, 89.99, 80.0, 69.99, 60.0 and 59.99
  map to A, B, B, D, D and F.
\<close>

theorem numeric_to_letter_bands:
  "(90 \<le> t \<longrightarrow> numeric_to_letter t = ''A'')
   \<and> (80 \<le> t \<and> t < 90 \<longrightarrow> numeric_to_letter t = ''B'')
   \<and> (70 \<le> t \<and> t < 80 \<longrightarrow> numeric_to_letter t = ''C'')
   \<and> (60 \<le> t \<and> t < 70 \<longrightarrow> numeric_to_letter t = ''D'')
   \<and> (t < 60 \<longrightarrow> numeric_to_letter t = ''F'')
   \<and> map numeric_to_letter [90, 8999 / 100, 80, 6999 / 100, 60, 5999 / 100]
       = [''A'', ''B'', ''B'', ''D'', ''D'', ''F'']"
  by (simp add: numeric_to_letter_def)

theorem numeric_to_letter_bands_witness:
  "(80::real) \<le> 8999 / 100 \<and> (8999 / 100 :: real) < 90 \<and> numeric_to_letter (8999 / 100) = ''B''"
  using numeric_to_letter_bands [of "8999 / 100"] by simp

subsection \<open>Outlier detection\<close>

lemma collect_scores_map_filter:
  "collect_scores aname sts acc =
     acc @ List.map_filter (\<lambda>(k, s). map_option (Pair (student_id s)) (map_of (scores s) aname)) sts"
  by (induction sts arbitrary: acc) (auto simp: List.map_filter_simps split: option.splits)

lemma flag_outliers_filter:
  "flag_outliers thr m sd scs acc =
     acc @ (if sd = 0 then [] else filter (\<lambda>(sid, v). \<bar>v - m\<bar> > thr * sd) scs)"
  by (induction scs arbitrary: acc) auto

lemma sample_stdev_zero_all_mean:
  assumes "2 \<le> length xs" and "spec_sample_stdev xs = 0" and "x \<in> set xs"
  shows "x = spec_sample_mean xs"
proof -
  have "real (length xs) - 1 > 0" using assms(1) by simp
  with assms(2) have "(\<Sum>x\<leftarrow>xs. (x - spec_sample_mean xs)\<^sup>2) = 0"
    by (simp add: spec_sample_stdev_def)
  then have "(x - spec_sample_mean xs)\<^sup>2 = 0"
    using sum_list_zero_nonneg [of xs "\<lambda>x. (x - spec_sample_mean xs)\<^sup>2" x] assms(3) by simp
  then show ?thesis by simp
qed

lemma filter_none_when_stdev_zero:
  assumes "2 \<le> length scs" and "spec_sample_stdev (map snd scs) = 0"
  shows "filter (\<lambda>(sid, v). \<bar>v - spec_sample_mean (map snd scs)\<bar> > thr * spec_sample_stdev (map snd scs)) scs = []"
proof -
  have "snd p = spec_sample_mean (map snd scs)" if "p \<in> set scs" for p
    using sample_stdev_zero_all_mean [of "map snd scs" "snd p"] assms that by simp
  then show ?thesis using assms(2) by (auto simp: filter_empty_conv)
qed

lemma detect_outliers_spec: "detect_outliers c aname thr = Inr (spec_outliers c aname thr)"
proof -
  let ?scs = "spec_recorded c aname"
  have col: "collect_scores aname (students c) [] = ?scs"
    by (simp add: collect_scores_map_filter spec_recorded_def)
  show ?thesis
  proof (cases "length ?scs < 2")
    case True
    then show ?thesis
      by (auto simp: detect_outliers_def col spec_outliers_def Let_def)
  next
    case False
    then have ne: "?scs \<noteq> []" and len: "2 \<le> length ?scs" by auto
    have m: "statistics_mean (map snd ?scs) = Inr (spec_sample_mean (map snd ?scs))"
      using ne by (simp add: statistics_mean_def spec_sample_mean_def)
    have real_pred: "real (length ?scs - 1) = real (length ?scs) - 1" using len by simp
    have sd: "statistics_stdev (map snd ?scs) = Inr (spec_sample_stdev (map snd ?scs))"
      using len by (simp add: statistics_stdev_def spec_sample_stdev_def spec_sample_mean_def real_pred)
    show ?thesis
    proof (cases "spec_sample_stdev (map snd ?scs) = 0")
      case True
      have "detect_outliers c aname thr = Inr []"
        using False True by (simp add: detect_outliers_def col Let_def m sd ne flag_outliers_filter)
      moreover have "spec_outliers c aname thr = []"
        using False filter_none_when_stdev_zero [OF len True, of thr]
        by (simp add: spec_outliers_def Let_def)
      ultimately show ?thesis by simp
    next
      case nz: False
      with False show ?thesis
        by (simp add: detect_outliers_def col spec_outliers_def Let_def m sd ne flag_outliers_filter)
    qed
  qed
qed

lemma sqrt_16: "sqrt 16 = 4"
  by (rule real_sqrt_unique) simp_all



subsection \<open>Narrow-format ingestion\<close>

lemma dict_contains_keys: "dict_contains d k \<longleftrightarrow> k \<in> fst ` set d"
  by (simp add: dict_contains_def map_of_eq_None_iff)

lemma dict_contains_cong: "map fst d = map fst d' \<Longrightarrow> dict_contains d k = dict_contains d' k"
  by (metis dict_contains_keys set_map)

lemma map_of_dict_modify:
  "map_of (dict_modify k f d) k' = (if k' = k then map_option f (map_of d k) else map_of d k')"
  by (induction d) auto

lemma keys_students_register [simp]: "students (register_assignment aname c) = students c"
  by (simp add: register_assignment_def)

lemma keys_students_set_score [simp]:
  "map fst (students (set_score sid aname v c)) = map fst (students c)"
  by (simp add: set_score_def map_fst_dict_modify)

lemma keys_students_narrow_row [simp]:
  "map fst (students (crs (narrow_row to_float row s))) = map fst (students (crs s))"
  by (simp add: narrow_row_def Let_def split: option.splits)

lemma narrow_row_counts:
  "processed (narrow_row to_float row s) = processed s + (if spec_narrow_ok to_float (crs s) row then 1 else 0)"
  "failed (narrow_row to_float row s) = failed s + (if spec_narrow_ok to_float (crs s) row then 0 else 1)"
  by (auto simp: narrow_row_def spec_narrow_ok_def Let_def split: option.splits)

lemma spec_narrow_ok_cong:
  "map fst (students c) = map fst (students c') \<Longrightarrow>
   spec_narrow_ok to_float c row = spec_narrow_ok to_float c' row"
  by (simp add: spec_narrow_ok_def dict_contains_cong [of "students c" "students c'"])

lemma fold_narrow_row_counts:
  "map fst (students (crs s)) = map fst (students c) \<Longrightarrow>
   processed (fold (narrow_row to_float) rows s)
     = processed s + length (filter (spec_narrow_ok to_float c) rows)
   \<and> failed (fold (narrow_row to_float) rows s)
     = failed s + length (filter (\<lambda>r. \<not> spec_narrow_ok to_float c r) rows)"
proof (induction rows arbitrary: s)
  case Nil
  then show ?case by simp
next
  case (Cons r rows)
  have ok: "spec_narrow_ok to_float (crs s) r = spec_narrow_ok to_float c r"
    using Cons.prems by (rule spec_narrow_ok_cong)
  have "map fst (students (crs (narrow_row to_float r s))) = map fst (students c)"
    using Cons.prems by simp
  from Cons.IH [OF this] show ?case
    by (simp add: narrow_row_counts ok)
qed

lemma bulk_import_narrow:
  "\<not> wide_format rows \<Longrightarrow>
   bulk_import_grades_csv to_float rows c
     = fold (narrow_row to_float) rows \<lparr>crs = c, processed = 0, failed = 0\<rparr>"
  by (auto simp: bulk_import_grades_csv_def wide_format_def Let_def)

lemma map_of_assignments_register:
  "map_of (assignments (register_assignment aname c)) aname
     = (case map_of (assignments c) aname of
          None \<Rightarrow> Some \<lparr>assignment_name = aname, weight = 0, max_score = 100\<rparr>
        | Some a \<Rightarrow> Some a)"
  by (auto simp: register_assignment_def dict_contains_def map_of_dict_set)

lemma recorded_after_set_score:
  "dict_contains (students c) sid \<Longrightarrow>
   \<exists>st. map_of (students (set_score sid aname v c)) sid = Some st
        \<and> map_of (scores st) aname = Some v"
  by (auto simp: set_score_def dict_contains_def map_of_dict_modify map_of_dict_set)

text \<open>
  Claim C5. In narrow-format ingestion (the first row does not start with \<open>id\<close>) a row
  with fewer than 3 fields, with a score field that is not a number, or with an unknown
  student id adds one to \<open>failed\<close> and changes nothing else; every other row records
  the score, registers the assignment with weight 0 and \<open>max_score\<close> 100 if it is absent,
  and adds one to \<open>processed\<close>. Every row is counted once, whatever the rows before it
  were, and the example of three rows returns \<open>(1, 2)\<close>.
\<close>

theorem narrow_format_rows:
  assumes "\<not> wide_format rows"
  shows "bulk_import_grades_csv to_float rows c
           = fold (narrow_row to_float) rows \<lparr>crs = c, processed = 0, failed = 0\<rparr>
    \<and> processed (bulk_import_grades_csv to_float rows c)
           = length (filter (spec_narrow_ok to_float c) rows)
    \<and> failed (bulk_import_grades_csv to_float rows c)
           = length (filter (\<lambda>r. \<not> spec_narrow_ok to_float c r) rows)
    \<and> processed (bulk_import_grades_csv to_float rows c)
         + failed (bulk_import_grades_csv to_float rows c) = length rows
    \<and> (\<not> spec_narrow_ok to_float (crs s) row \<longrightarrow>
          narrow_row to_float row s = s\<lparr>failed := failed s + 1\<rparr>)
    \<and> (spec_narrow_ok to_float (crs s) row \<longrightarrow>
          processed (narrow_row to_float row s) = processed s + 1
          \<and> failed (narrow_row to_float row s) = failed s
          \<and> (\<exists>st. map_of (students (crs (narrow_row to_float row s))) (strip (row ! 0)) = Some st
                  \<and> map_of (scores st) (strip (row ! 1)) = to_float (strip (row ! 2)))
          \<and> map_of (assignments (crs (narrow_row to_float row s))) (strip (row ! 1))
              = (case map_of (assignments (crs s)) (strip (row ! 1)) of
                   None \<Rightarrow> Some \<lparr>assignment_name = strip (row ! 1), weight = 0, max_score = 100\<rparr>
                 | Some a \<Rightarrow> Some a))
    \<and> processed (bulk_import_grades_csv decimal_float narrow_example_rows demo_course) = 1
    \<and> failed (bulk_import_grades_csv decimal_float narrow_example_rows demo_course) = 2"
proof -
  let ?start = "\<lparr>crs = c, processed = 0, failed = 0\<rparr>"
  have a: "bulk_import_grades_csv to_float rows c = fold (narrow_row to_float) rows ?start"
    using assms by (rule bulk_import_narrow)
  have cnt: "processed (fold (narrow_row to_float) rows ?start)
               = length (filter (spec_narrow_ok to_float c) rows)
             \<and> failed (fold (narrow_row to_float) rows ?start)
               = length (filter (\<lambda>r. \<not> spec_narrow_ok to_float c r) rows)"
    using fold_narrow_row_counts [of ?start c to_float rows] by simp
  have tot: "length (filter (spec_narrow_ok to_float c) rows)
             + length (filter (\<lambda>r. \<not> spec_narrow_ok to_float c r) rows) = length rows"
    by (rule sum_length_filter_compl)
  have bad: "narrow_row to_float row s = s\<lparr>failed := failed s + 1\<rparr>"
    if "\<not> spec_narrow_ok to_float (crs s) row"
    using that by (auto simp: narrow_row_def spec_narrow_ok_def Let_def split: option.splits)
  have good: "processed (narrow_row to_float row s) = processed s + 1
          \<and> failed (narrow_row to_float row s) = failed s
          \<and> (\<exists>st. map_of (students (crs (narrow_row to_float row s))) (strip (row ! 0)) = Some st
                  \<and> map_of (scores st) (strip (row ! 1)) = to_float (strip (row ! 2)))
          \<and> map_of (assignments (crs (narrow_row to_float row s))) (strip (row ! 1))
              = (case map_of (assignments (crs s)) (strip (row ! 1)) of
                   None \<Rightarrow> Some \<lparr>assignment_name = strip (row ! 1), weight = 0, max_score = 100\<rparr>
                 | Some a \<Rightarrow> Some a)"
    if ok: "spec_narrow_ok to_float (crs s) row"
  proof -
    from ok obtain v where v: "to_float (strip (row ! 2)) = Some v"
      and len: "\<not> length row < 3"
      and known: "dict_contains (students (crs s)) (strip (row ! 0))"
      by (auto simp: spec_narrow_ok_def)
    have step: "narrow_row to_float row s
        = s\<lparr>crs := set_score (strip (row ! 0)) (strip (row ! 1)) v
                      (register_assignment (strip (row ! 1)) (crs s)),
             processed := processed s + 1\<rparr>"
      using v len known by (simp add: narrow_row_def Let_def)
    have known': "dict_contains (students (register_assignment (strip (row ! 1)) (crs s))) (strip (row ! 0))"
      using known by simp
    show ?thesis
      using recorded_after_set_score [OF known', of "strip (row ! 1)" v]
      by (simp add: step v map_of_assignments_register assignments_set_score del: One_nat_def)
  qed
  have ex: "processed (bulk_import_grades_csv decimal_float narrow_example_rows demo_course) = 1
    \<and> failed (bulk_import_grades_csv decimal_float narrow_example_rows demo_course) = 2"
    by code_simp
  from a cnt tot bad good ex show ?thesis by simp
qed

theorem narrow_format_rows_witness:
  "\<not> wide_format narrow_example_rows
   \<and> map (spec_narrow_ok decimal_float demo_course) narrow_example_rows = [True, False, False]
   \<and> processed (bulk_import_grades_csv decimal_float narrow_example_rows demo_course) = 1
   \<and> failed (bulk_import_grades_csv decimal_float narrow_example_rows demo_course) = 2"
proof -
  have nw: "\<not> wide_format narrow_example_rows"
    by code_simp
  have oks: "map (spec_narrow_ok decimal_float demo_course) narrow_example_rows = [True, False, False]"
    by code_simp
  then have f: "filter (spec_narrow_ok decimal_float demo_course) narrow_example_rows = [[''s1'', ''HW1'', ''15'']]"
    "filter (\<lambda>r. \<not> spec_narrow_ok decimal_float demo_course r) narrow_example_rows
        = [[''zz'', ''HW1'', ''15''], [''s2'', ''Quiz'', ''abc'']]"
    by (simp_all add: narrow_example_rows_def)
  note th = narrow_format_rows [OF nw, of decimal_float demo_course]
  from th have p: "processed (bulk_import_grades_csv decimal_float narrow_example_rows demo_course)
      = length (filter (spec_narrow_ok decimal_float demo_course) narrow_example_rows)"
    by (rule conjunct2 [THEN conjunct1])
  from th have q: "failed (bulk_import_grades_csv decimal_float narrow_example_rows demo_course)
      = length (filter (\<lambda>r. \<not> spec_narrow_ok decimal_float demo_course r) narrow_example_rows)"
    by (rule conjunct2 [THEN conjunct2, THEN conjunct1])
  from nw oks show ?thesis
    by (simp add: p q f)
qed

subsection \<open>Wide-format ingestion and the catalog\<close>

lemma fold_unchanged: "(\<And>x. x \<in> set xs \<Longrightarrow> f x c = c) \<Longrightarrow> fold f xs c = c"
  by (induction xs) auto

lemma enumerate1_index: "(i, x) \<in> set (enumerate1 xs) \<Longrightarrow> i \<in> {1..length xs}"
  by (auto simp: enumerate1_def dest!: set_zip_leftD)

lemma wide_cell_skip:
  "i \<ge> length row \<or> strip (row ! i) = [] \<or> to_float (strip (row ! i)) = None \<Longrightarrow>
   wide_cell to_float sid row (i, aname) c = c"
  by (auto simp: wide_cell_def Let_def)

lemma keys_students_wide_cell [simp]:
  "map fst (students (wide_cell to_float sid row cell c)) = map fst (students c)"
  by (cases cell) (simp add: wide_cell_def Let_def split: option.splits)

lemma keys_students_fold_wide_cell [simp]:
  "map fst (students (fold (wide_cell to_float sid row) cells c)) = map fst (students c)"
  by (induction cells arbitrary: c) simp_all

lemma keys_students_wide_row [simp]:
  "map fst (students (crs (wide_row to_float names row s))) = map fst (students (crs s))"
  by (simp add: wide_row_def Let_def)

lemma wide_row_counts:
  "processed (wide_row to_float names row s)
     = processed s + (if row \<noteq> [] \<and> dict_contains (students (crs s)) (strip (row ! 0)) then 1 else 0)"
  "failed (wide_row to_float names row s)
     = failed s + (if row \<noteq> [] \<and> \<not> dict_contains (students (crs s)) (strip (row ! 0)) then 1 else 0)"
  by (simp_all add: wide_row_def Let_def)

lemma fold_wide_row_counts:
  "map fst (students (crs s)) = map fst (students c) \<Longrightarrow>
   processed (fold (wide_row to_float names) rows s)
     = processed s + length (filter (\<lambda>r. r \<noteq> [] \<and> dict_contains (students c) (strip (r ! 0))) rows)
   \<and> failed (fold (wide_row to_float names) rows s)
     = failed s + length (filter (\<lambda>r. r \<noteq> [] \<and> \<not> dict_contains (students c) (strip (r ! 0))) rows)"
proof (induction rows arbitrary: s)
  case Nil
  then show ?case by simp
next
  case (Cons r rows)
  have known: "dict_contains (students (crs s)) k = dict_contains (students c) k" for k
    using Cons.prems by (rule dict_contains_cong)
  have "map fst (students (crs (wide_row to_float names r s))) = map fst (students c)"
    using Cons.prems by simp
  from Cons.IH [OF this] show ?case
    by (simp add: wide_row_counts known)
qed

lemma bulk_import_wide:
  "wide_format rows \<Longrightarrow>
   bulk_import_grades_csv to_float rows c
     = fold (wide_row to_float (tl (map strip (hd rows)))) (tl rows)
         \<lparr>crs = c, processed = 0, failed = 0\<rparr>"
  by (auto simp: bulk_import_grades_csv_def wide_format_def Let_def)

lemma registered_only_iff:
  "spec_registered_only before after \<longleftrightarrow>
     (\<exists>new. after = before @ new
           \<and> list_all (\<lambda>(n, a). a = \<lparr>assignment_name = n, weight = 0, max_score = 100\<rparr>
                               \<and> \<not> dict_contains before n) new)"
proof
  assume "spec_registered_only before after"
  then have "after = before @ drop (length before) after
      \<and> list_all (\<lambda>(n, a). a = \<lparr>assignment_name = n, weight = 0, max_score = 100\<rparr>
                          \<and> \<not> dict_contains before n) (drop (length before) after)"
    unfolding spec_registered_only_def by (metis append_take_drop_id)
  then show "\<exists>new. after = before @ new
           \<and> list_all (\<lambda>(n, a). a = \<lparr>assignment_name = n, weight = 0, max_score = 100\<rparr>
                               \<and> \<not> dict_contains before n) new"
    by blast
next
  assume "\<exists>new. after = before @ new
           \<and> list_all (\<lambda>(n, a). a = \<lparr>assignment_name = n, weight = 0, max_score = 100\<rparr>
                               \<and> \<not> dict_contains before n) new"
  then show "spec_registered_only before after"
    by (auto simp: spec_registered_only_def)
qed

lemma registered_only_refl: "spec_registered_only A A"
  by (simp add: spec_registered_only_def)

lemma registered_only_keys:
  "spec_registered_only A B \<Longrightarrow> dict_contains A n \<Longrightarrow> dict_contains B n"
  by (auto simp: registered_only_iff dict_contains_keys)

lemma registered_only_register:
  assumes "spec_registered_only A (assignments c)"
  shows "spec_registered_only A (assignments (register_assignment n c))"
proof (cases "dict_contains (assignments c) n")
  case True
  with assms show ?thesis by (simp add: register_assignment_def)
next
  case False
  then have fresh: "n \<notin> fst ` set (assignments c)" by (simp add: dict_contains_keys)
  from False assms have notA: "\<not> dict_contains A n" by (blast dest: registered_only_keys)
  from assms obtain new where new: "assignments c = A @ new"
      "list_all (\<lambda>(n, a). a = \<lparr>assignment_name = n, weight = 0, max_score = 100\<rparr>
                               \<and> \<not> dict_contains A n) new"
    by (auto simp: registered_only_iff)
  have "assignments (register_assignment n c)
      = assignments c @ [(n, \<lparr>assignment_name = n, weight = 0, max_score = 100\<rparr>)]"
    using False by (simp add: register_assignment_def dict_set_fresh [OF fresh])
  then have "assignments (register_assignment n c)
      = A @ (new @ [(n, \<lparr>assignment_name = n, weight = 0, max_score = 100\<rparr>)])"
    by (simp add: new(1))
  moreover have "list_all (\<lambda>(n, a). a = \<lparr>assignment_name = n, weight = 0, max_score = 100\<rparr>
                               \<and> \<not> dict_contains A n)
                  (new @ [(n, \<lparr>assignment_name = n, weight = 0, max_score = 100\<rparr>)])"
    using new(2) notA by simp
  ultimately show ?thesis unfolding registered_only_iff by blast
qed

lemma registered_only_wide_cell:
  "spec_registered_only A (assignments c) \<Longrightarrow>
   spec_registered_only A (assignments (wide_cell to_float sid row cell c))"
  by (cases cell)
     (simp add: wide_cell_def Let_def assignments_set_score registered_only_register
        split: option.splits)

lemma registered_only_fold_wide_cell:
  "spec_registered_only A (assignments c) \<Longrightarrow>
   spec_registered_only A (assignments (fold (wide_cell to_float sid row) cells c))"
  by (induction cells arbitrary: c) (simp_all add: registered_only_wide_cell)

lemma registered_only_wide_row:
  "spec_registered_only A (assignments (crs s)) \<Longrightarrow>
   spec_registered_only A (assignments (crs (wide_row to_float names row s)))"
  by (simp add: wide_row_def Let_def registered_only_fold_wide_cell)

lemma registered_only_narrow_row:
  "spec_registered_only A (assignments (crs s)) \<Longrightarrow>
   spec_registered_only A (assignments (crs (narrow_row to_float row s)))"
  by (simp add: narrow_row_def Let_def assignments_set_score registered_only_register
        split: option.splits)

lemma registered_only_fold_wide_row:
  "spec_registered_only A (assignments (crs s)) \<Longrightarrow>
   spec_registered_only A (assignments (crs (fold (wide_row to_float names) rows s)))"
  by (induction rows arbitrary: s) (simp_all add: registered_only_wide_row)

lemma registered_only_fold_narrow_row:
  "spec_registered_only A (assignments (crs s)) \<Longrightarrow>
   spec_registered_only A (assignments (crs (fold (narrow_row to_float) rows s)))"
  by (induction rows arbitrary: s) (simp_all add: registered_only_narrow_row)

lemma registered_only_bulk_import:
  "spec_registered_only (assignments c) (assignments (crs (bulk_import_grades_csv to_float rows c)))"
proof (cases "wide_format rows")
  case True
  show ?thesis
    unfolding bulk_import_wide [OF True]
    by (rule registered_only_fold_wide_row) (simp add: registered_only_refl)
next
  case False
  show ?thesis
    unfolding bulk_import_narrow [OF False]
    by (rule registered_only_fold_narrow_row) (simp add: registered_only_refl)
qed

text \<open>
  Claim C6. In wide-format ingestion a data row whose student id is unknown adds one to
  \<open>failed\<close> and changes neither the scores nor the catalog; a cell that is missing,
  blank or not a number is skipped and leaves the course as it is; a row with a known
  student id adds exactly one to \<open>processed\<close> and nothing to \<open>failed\<close>, also when none
  of its cells holds a valid score. Over the whole input, \<open>failed\<close> counts the data rows
  with an unknown id and \<open>processed\<close> those with a known id.
\<close>

theorem wide_format_rows:
  assumes "wide_format rows"
  shows "bulk_import_grades_csv to_float rows c
           = fold (wide_row to_float (tl (map strip (hd rows)))) (tl rows)
               \<lparr>crs = c, processed = 0, failed = 0\<rparr>
    \<and> failed (bulk_import_grades_csv to_float rows c)
         = length (filter (\<lambda>r. r \<noteq> [] \<and> \<not> dict_contains (students c) (strip (r ! 0))) (tl rows))
    \<and> processed (bulk_import_grades_csv to_float rows c)
         = length (filter (\<lambda>r. r \<noteq> [] \<and> dict_contains (students c) (strip (r ! 0))) (tl rows))
    \<and> (row \<noteq> [] \<and> \<not> dict_contains (students (crs s)) (strip (row ! 0)) \<longrightarrow>
          wide_row to_float names row s = s\<lparr>failed := failed s + 1\<rparr>)
    \<and> (i \<ge> length row \<or> strip (row ! i) = [] \<or> to_float (strip (row ! i)) = None \<longrightarrow>
          wide_cell to_float sid row (i, aname) c' = c')
    \<and> (row \<noteq> [] \<and> dict_contains (students (crs s)) (strip (row ! 0)) \<longrightarrow>
          processed (wide_row to_float names row s) = processed s + 1
          \<and> failed (wide_row to_float names row s) = failed s)
    \<and> (row \<noteq> [] \<and> dict_contains (students (crs s)) (strip (row ! 0))
        \<and> (\<forall>i\<in>{1..length names}.
              i \<ge> length row \<or> strip (row ! i) = [] \<or> to_float (strip (row ! i)) = None) \<longrightarrow>
          wide_row to_float names row s = s\<lparr>processed := processed s + 1\<rparr>)"
proof -
  let ?start = "\<lparr>crs = c, processed = 0, failed = 0\<rparr>"
  let ?names = "tl (map strip (hd rows))"
  have a: "bulk_import_grades_csv to_float rows c = fold (wide_row to_float ?names) (tl rows) ?start"
    using assms by (rule bulk_import_wide)
  have cnt: "processed (fold (wide_row to_float ?names) (tl rows) ?start)
      = length (filter (\<lambda>r. r \<noteq> [] \<and> dict_contains (students c) (strip (r ! 0))) (tl rows))
    \<and> failed (fold (wide_row to_float ?names) (tl rows) ?start)
      = length (filter (\<lambda>r. r \<noteq> [] \<and> \<not> dict_contains (students c) (strip (r ! 0))) (tl rows))"
    using fold_wide_row_counts [of ?start c to_float ?names "tl rows"] by simp
  have unknown: "wide_row to_float names row s = s\<lparr>failed := failed s + 1\<rparr>"
    if "row \<noteq> [] \<and> \<not> dict_contains (students (crs s)) (strip (row ! 0))"
    using that by (simp add: wide_row_def Let_def)
  have cell: "wide_cell to_float sid row (i, aname) c' = c'"
    if "i \<ge> length row \<or> strip (row ! i) = [] \<or> to_float (strip (row ! i)) = None"
    using that by (rule wide_cell_skip)
  have once: "processed (wide_row to_float names row s) = processed s + 1
          \<and> failed (wide_row to_float names row s) = failed s"
    if "row \<noteq> [] \<and> dict_contains (students (crs s)) (strip (row ! 0))"
    using that by (simp add: wide_row_counts)
  have none: "wide_row to_float names row s = s\<lparr>processed := processed s + 1\<rparr>"
    if known: "row \<noteq> [] \<and> dict_contains (students (crs s)) (strip (row ! 0))"
      and skip: "\<forall>i\<in>{1..length names}.
              i \<ge> length row \<or> strip (row ! i) = [] \<or> to_float (strip (row ! i)) = None"
  proof -
    have "fold (wide_cell to_float (strip (row ! 0)) row) (enumerate1 names) (crs s) = crs s"
    proof (rule fold_unchanged)
      fix x assume x: "x \<in> set (enumerate1 names)"
      obtain j an where xj: "x = (j, an)" by (cases x)
      from x have j: "j \<in> {1..length names}" unfolding xj by (rule enumerate1_index)
      from skip j have "j \<ge> length row \<or> strip (row ! j) = [] \<or> to_float (strip (row ! j)) = None"
        by (rule bspec)
      then show "wide_cell to_float (strip (row ! 0)) row x (crs s) = crs s"
        unfolding xj by (rule wide_cell_skip)
    qed
    with known show ?thesis by (simp add: wide_row_def Let_def)
  qed
  from cnt have cnt': "processed (bulk_import_grades_csv to_float rows c)
      = length (filter (\<lambda>r. r \<noteq> [] \<and> dict_contains (students c) (strip (r ! 0))) (tl rows))"
    "failed (bulk_import_grades_csv to_float rows c)
      = length (filter (\<lambda>r. r \<noteq> [] \<and> \<not> dict_contains (students c) (strip (r ! 0))) (tl rows))"
    by (simp_all only: a)
  show ?thesis
    using a cnt' unknown cell once none by blast
qed

theorem wide_format_rows_witness:
  "wide_format wide_example_rows
   \<and> processed (bulk_import_grades_csv decimal_float wide_example_rows demo_course) = 3
   \<and> failed (bulk_import_grades_csv decimal_float wide_example_rows demo_course) = 1
   \<and> wide_row decimal_float [''HW1'', ''Quiz''] [''s2'', ''abc'', []]
         \<lparr>crs = demo_course, processed = 0, failed = 0\<rparr>
       = \<lparr>crs = demo_course, processed = 1, failed = 0\<rparr>"
proof -
  let ?start = "\<lparr>crs = demo_course, processed = 0, failed = 0\<rparr>"
  let ?row = "[''s2'', ''abc'', []]"
  have w: "wide_format wide_example_rows"
    by code_simp
  have known: "filter (\<lambda>r. r \<noteq> [] \<and> dict_contains (students demo_course) (strip (r ! 0)))
                 (tl wide_example_rows) = [[''s1'', ''15'', ''7''], [''s2'', ''abc'', []], [''s3'']]"
    by code_simp
  have unknown: "filter (\<lambda>r. r \<noteq> [] \<and> \<not> dict_contains (students demo_course) (strip (r ! 0)))
                 (tl wide_example_rows) = [[''zz'', ''1'', ''2'']]"
    by code_simp
  have e1: "decimal_float (strip ''abc'') = None"
    by code_simp
  have e2: "strip [] = []"
    by (simp add: strip_def)
  have k2: "dict_contains (students demo_course) (strip ''s2'')"
    by code_simp
  have skip: "i \<ge> length ?row \<or> strip (?row ! i) = [] \<or> decimal_float (strip (?row ! i)) = None"
    if "i \<in> {1..length [''HW1'', ''Quiz'']}" for i
  proof -
    from that have "i = 1 \<or> i = 2" by auto
    then show ?thesis using e1 e2 by auto
  qed
  have pre: "?row \<noteq> [] \<and> dict_contains (students (crs ?start)) (strip (?row ! 0))
        \<and> (\<forall>i\<in>{1..length [''HW1'', ''Quiz'']}.
              i \<ge> length ?row \<or> strip (?row ! i) = [] \<or> decimal_float (strip (?row ! i)) = None)"
    using k2 skip by simp
  note th = wide_format_rows [OF w, of decimal_float demo_course ?row ?start "[''HW1'', ''Quiz'']"]
  from th have q: "failed (bulk_import_grades_csv decimal_float wide_example_rows demo_course)
      = length (filter (\<lambda>r. r \<noteq> [] \<and> \<not> dict_contains (students demo_course) (strip (r ! 0)))
                 (tl wide_example_rows))"
    by (rule conjunct2 [THEN conjunct1])
  from th have p: "processed (bulk_import_grades_csv decimal_float wide_example_rows demo_course)
      = length (filter (\<lambda>r. r \<noteq> [] \<and> dict_contains (students demo_course) (strip (r ! 0)))
                 (tl wide_example_rows))"
    by (rule conjunct2 [THEN conjunct2, THEN conjunct1])
  from th pre have r: "wide_row decimal_float [''HW1'', ''Quiz''] ?row ?start
      = ?start\<lparr>processed := processed ?start + 1\<rparr>"
    by blast
  from w show ?thesis
    by (simp add: p q r known unknown)
qed

text \<open>
  Claim C10. Bulk ingestion, in either format, never changes an assignment that is already
  in the catalog: the catalog after the call starts with the catalog before it, and what
  follows are registrations with weight 0 and \<open>max_score\<close> 100 of names that were absent.
  An assignment whose weight was set keeps its weight and \<open>max_score\<close>.
\<close>

theorem bulk_import_keeps_catalog_entries:
  "spec_registered_only (assignments c)
     (assignments (crs (bulk_import_grades_csv to_float rows c)))
   \<and> (map_of (assignments c) n = Some a \<longrightarrow>
        map_of (assignments (crs (bulk_import_grades_csv to_float rows c))) n = Some a)"
proof -
  let ?after = "assignments (crs (bulk_import_grades_csv to_float rows c))"
  have ro: "spec_registered_only (assignments c) ?after"
    by (rule registered_only_bulk_import)
  then obtain new where "?after = assignments c @ new"
    unfolding registered_only_iff by blast
  then have "map_of ?after n = Some a" if "map_of (assignments c) n = Some a"
    using that by simp
  with ro show ?thesis by blast
qed

theorem bulk_import_keeps_catalog_entries_witness:
  "map_of (assignments demo_course) ''HW1''
     = Some \<lparr>assignment_name = ''HW1'', weight = 3 / 10, max_score = 20\<rparr>
   \<and> map_of (assignments (crs (bulk_import_grades_csv decimal_float wide_example_rows demo_course)))
       ''HW1'' = Some \<lparr>assignment_name = ''HW1'', weight = 3 / 10, max_score = 20\<rparr>
   \<and> drop 2 (assignments (crs (bulk_import_grades_csv decimal_float wide_example_rows demo_course)))
       = [(''Quiz'', \<lparr>assignment_name = ''Quiz'', weight = 0, max_score = 100\<rparr>)]"
proof -
  have before: "map_of (assignments demo_course) ''HW1''
     = Some \<lparr>assignment_name = ''HW1'', weight = 3 / 10, max_score = 20\<rparr>"
    by (simp add: demo_course_def)
  have new: "drop 2 (assignments (crs (bulk_import_grades_csv decimal_float wide_example_rows demo_course)))
       = [(''Quiz'', \<lparr>assignment_name = ''Quiz'', weight = 0, max_score = 100\<rparr>)]"
    by code_simp
  from bulk_import_keeps_catalog_entries [of demo_course decimal_float wide_example_rows "''HW1''"
      "\<lparr>assignment_name = ''HW1'', weight = 3 / 10, max_score = 20\<rparr>"] before new
  show ?thesis by blast
qed

subsection \<open>Re-ingestion\<close>

lemma dict_set_same: "dict_set k v (dict_set k v' d) = dict_set k v d"
  by (induction d) auto

lemma dict_set_swap:
  "k \<noteq> k' \<Longrightarrow> k \<in> fst ` set d \<Longrightarrow>
   dict_set k' v' (dict_set k v d) = dict_set k v (dict_set k' v' d)"
  by (induction d) (force simp: image_iff)+

lemma keys_dict_set: "fst ` set (dict_set k v d) = insert k (fst ` set d)"
  by (simp add: dom_map_of_conv_image_fst [symmetric] map_of_dict_set)

lemma keys_set_all: "fst ` set (set_all ws d) = fst ` set ws \<union> fst ` set d"
  by (induction ws arbitrary: d) (simp_all add: keys_dict_set split_def)

lemma set_all_absorbs:
  "k \<in> fst ` set ws \<Longrightarrow> k \<in> fst ` set d \<Longrightarrow> set_all ws (dict_set k v d) = set_all ws d"
proof (induction ws arbitrary: d)
  case Nil
  then show ?case by simp
next
  case (Cons w ws)
  obtain k' v' where w: "w = (k', v')" by (cases w)
  show ?case
  proof (cases "k' = k")
    case True
    then show ?thesis by (simp add: w dict_set_same)
  next
    case False
    with Cons.prems(1) have in_ws: "k \<in> fst ` set ws" by (auto simp: w)
    have in_d: "k \<in> fst ` set (dict_set k' v' d)"
      using Cons.prems(2) by (simp add: keys_dict_set)
    have "set_all (w # ws) (dict_set k v d) = set_all ws (dict_set k v (dict_set k' v' d))"
      using False Cons.prems(2) by (simp add: w dict_set_swap [of k k'])
    also have "\<dots> = set_all ws (dict_set k' v' d)"
      by (rule Cons.IH [OF in_ws in_d])
    finally show ?thesis by (simp add: w)
  qed
qed

lemma set_all_commutes:
  "k \<notin> fst ` set ws \<Longrightarrow> k \<in> fst ` set d \<Longrightarrow>
   set_all ws (dict_set k v d) = dict_set k v (set_all ws d)"
proof (induction ws arbitrary: d)
  case Nil
  then show ?case by simp
next
  case (Cons w ws)
  obtain k' v' where w: "w = (k', v')" by (cases w)
  from Cons.prems(1) have ne: "k \<noteq> k'" and not_ws: "k \<notin> fst ` set ws" by (auto simp: w)
  have in_d: "k \<in> fst ` set (dict_set k' v' d)"
    using Cons.prems(2) by (simp add: keys_dict_set)
  have "set_all (w # ws) (dict_set k v d) = set_all ws (dict_set k v (dict_set k' v' d))"
    using ne Cons.prems(2) by (simp add: w dict_set_swap [of k k'])
  also have "\<dots> = dict_set k v (set_all ws (dict_set k' v' d))"
    by (rule Cons.IH [OF not_ws in_d])
  finally show ?case by (simp add: w)
qed

lemma set_all_again:
  "set_all ws (set_all (pre @ ws) d) = set_all (pre @ ws) d"
proof (induction ws arbitrary: pre)
  case Nil
  then show ?case by simp
next
  case (Cons w ws)
  obtain k v where w: "w = (k, v)" by (cases w)
  let ?t = "set_all (pre @ w # ws) d"
  have t: "?t = set_all ((pre @ [w]) @ ws) d" by simp
  have again: "set_all ws ?t = ?t"
    unfolding t by (rule Cons.IH)
  have in_t: "k \<in> fst ` set ?t"
    by (simp add: keys_set_all keys_dict_set w)
  have "set_all ws (dict_set k v ?t) = ?t"
  proof (cases "k \<in> fst ` set ws")
    case True
    from set_all_absorbs [OF True in_t] again show ?thesis by simp
  next
    case False
    let ?u = "set_all pre d"
    have in_u: "k \<in> fst ` set (dict_set k v ?u)" by (simp add: keys_dict_set)
    have t': "?t = set_all ws (dict_set k v ?u)" by (simp add: w)
    have "dict_set k v ?t = dict_set k v (set_all ws (dict_set k v ?u))"
      by (simp only: t')
    also have "\<dots> = set_all ws (dict_set k v (dict_set k v ?u))"
      by (rule set_all_commutes [OF False in_u, symmetric])
    also have "\<dots> = ?t" by (simp add: dict_set_same w)
    finally have "dict_set k v ?t = ?t" .
    with again show ?thesis by simp
  qed
  then show ?case by (simp add: w)
qed

lemma set_all_idem: "set_all ws (set_all ws d) = set_all ws d"
  using set_all_again [of ws "[]" d] by simp

lemma write_scores_idem: "write_scores ws (write_scores ws st) = write_scores ws st"
  by (simp add: set_all_idem)

lemma write_scores_append: "write_scores ws' (write_scores ws st) = write_scores (ws @ ws') st"
  by simp

lemma dict_modify_absent: "k \<notin> fst ` set d \<Longrightarrow> dict_modify k f d = d"
  by (induction d) auto

lemma dict_modify_id: "(\<And>v. f v = v) \<Longrightarrow> dict_modify k f d = d"
  by (induction d) auto

lemma dict_modify_twice: "dict_modify k f (dict_modify k g d) = dict_modify k (\<lambda>v. f (g v)) d"
  by (induction d) auto

lemma dict_modify_distinct:
  "distinct (map fst d) \<Longrightarrow>
   dict_modify k f d = map (\<lambda>(k', v). (k', if k' = k then f v else v)) d"
proof (induction d)
  case Nil
  then show ?case by simp
next
  case (Cons p d)
  obtain k' v' where p: "p = (k', v')" by (cases p)
  show ?case
  proof (cases "k' = k")
    case True
    with Cons.prems have "k \<notin> fst ` set d" by (simp add: p)
    then have "map (\<lambda>(k', v). (k', if k' = k then f v else v)) d = d"
      by (induction d) auto
    with True show ?thesis by (simp add: p)
  next
    case False
    with Cons show ?thesis by (simp add: p)
  qed
qed

lemma students_wide_cell_writes:
  "\<exists>ws. \<forall>c. students (wide_cell to_float sid row cell c)
             = dict_modify sid (write_scores ws) (students c)"
proof (cases cell)
  case (Pair i aname)
  show ?thesis
  proof (cases "i \<ge> length row \<or> strip (row ! i) = [] \<or> to_float (strip (row ! i)) = None")
    case True
    then have "\<forall>c. students (wide_cell to_float sid row cell c)
             = dict_modify sid (write_scores []) (students c)"
      by (simp add: Pair wide_cell_skip dict_modify_id)
    then show ?thesis ..
  next
    case False
    then obtain v where v: "to_float (strip (row ! i)) = Some v" by auto
    with False have "\<forall>c. students (wide_cell to_float sid row cell c)
             = dict_modify sid (write_scores [(aname, v)]) (students c)"
      by (simp add: Pair wide_cell_def Let_def set_score_def)
    then show ?thesis ..
  qed
qed

lemma students_fold_wide_cell_writes:
  "\<exists>ws. \<forall>c. students (fold (wide_cell to_float sid row) cells c)
             = dict_modify sid (write_scores ws) (students c)"
proof (induction cells)
  case Nil
  have "\<forall>c. students (fold (wide_cell to_float sid row) [] c)
             = dict_modify sid (write_scores []) (students c)"
    by (simp add: dict_modify_id)
  then show ?case ..
next
  case (Cons cell cells)
  from Cons.IH obtain ws where ws: "\<And>c. students (fold (wide_cell to_float sid row) cells c)
             = dict_modify sid (write_scores ws) (students c)" by blast
  from students_wide_cell_writes [of to_float sid row cell]
  obtain w where w: "\<And>c. students (wide_cell to_float sid row cell c)
             = dict_modify sid (write_scores w) (students c)" by blast
  have "\<forall>c. students (fold (wide_cell to_float sid row) (cell # cells) c)
             = dict_modify sid (write_scores (w @ ws)) (students c)"
    by (simp add: ws w dict_modify_twice)
  then show ?case ..
qed

lemma students_wide_row_writes:
  "\<exists>sid ws. \<forall>s. students (crs (wide_row to_float names row s))
             = dict_modify sid (write_scores ws) (students (crs s))"
proof (cases "row = []")
  case True
  have "\<forall>s. students (crs (wide_row to_float names row s))
             = dict_modify [] (write_scores []) (students (crs s))"
    using True by (simp add: wide_row_def dict_modify_id)
  then show ?thesis by blast
next
  case False
  let ?sid = "strip (row ! 0)"
  from students_fold_wide_cell_writes [of to_float ?sid row "enumerate1 names"]
  obtain ws where ws: "\<And>c. students (fold (wide_cell to_float ?sid row) (enumerate1 names) c)
             = dict_modify ?sid (write_scores ws) (students c)" by blast
  have "students (crs (wide_row to_float names row s))
             = dict_modify ?sid (write_scores ws) (students (crs s))" for s
  proof (cases "dict_contains (students (crs s)) ?sid")
    case True
    with False show ?thesis by (simp add: wide_row_def Let_def ws)
  next
    case unknown: False
    then have "?sid \<notin> fst ` set (students (crs s))" by (simp add: dict_contains_keys)
    from dict_modify_absent [OF this] unknown False show ?thesis
      by (simp add: wide_row_def Let_def)
  qed
  then show ?thesis by blast
qed

lemma students_fold_wide_row_writes:
  "\<exists>mods. \<forall>s. students (crs (fold (wide_row to_float names) rows s))
             = fold (\<lambda>(sid, ws). dict_modify sid (write_scores ws)) mods (students (crs s))"
proof (induction rows)
  case Nil
  have "\<forall>s. students (crs (fold (wide_row to_float names) [] s))
             = fold (\<lambda>(sid, ws). dict_modify sid (write_scores ws)) [] (students (crs s))"
    by simp
  then show ?case ..
next
  case (Cons row rows)
  from Cons.IH obtain mods where mods: "\<And>s. students (crs (fold (wide_row to_float names) rows s))
             = fold (\<lambda>(sid, ws). dict_modify sid (write_scores ws)) mods (students (crs s))"
    by blast
  from students_wide_row_writes [of to_float names row]
  obtain sid ws where r: "\<And>s. students (crs (wide_row to_float names row s))
             = dict_modify sid (write_scores ws) (students (crs s))" by blast
  have "\<forall>s. students (crs (fold (wide_row to_float names) (row # rows) s))
             = fold (\<lambda>(sid, ws). dict_modify sid (write_scores ws)) ((sid, ws) # mods)
                 (students (crs s))"
    by (simp add: mods r)
  then show ?case ..
qed

lemma fold_writes_distinct:
  "distinct (map fst S) \<Longrightarrow>
   fold (\<lambda>(sid, ws). dict_modify sid (write_scores ws)) mods S
     = map (\<lambda>(k, st). (k, write_scores (concat (map snd (filter (\<lambda>m. fst m = k) mods))) st)) S"
proof (induction mods arbitrary: S)
  case Nil
  then show ?case by (simp add: split_def)
next
  case (Cons m mods)
  obtain sid ws where m: "m = (sid, ws)" by (cases m)
  let ?S = "dict_modify sid (write_scores ws) S"
  have d: "distinct (map fst ?S)" using Cons.prems by (simp add: map_fst_dict_modify)
  have "fold (\<lambda>(sid, ws). dict_modify sid (write_scores ws)) (m # mods) S
      = map (\<lambda>(k, st). (k, write_scores (concat (map snd (filter (\<lambda>m. fst m = k) mods))) st)) ?S"
    using Cons.IH [OF d] by (simp add: m)
  also have "\<dots> = map (\<lambda>(k, st). (k, write_scores (concat (map snd (filter (\<lambda>m. fst m = k) (m # mods)))) st)) S"
    by (simp add: dict_modify_distinct [OF Cons.prems] m split_def)
  finally show ?case .
qed

lemma fold_writes_idem:
  assumes "distinct (map fst S)"
  shows "fold (\<lambda>(sid, ws). dict_modify sid (write_scores ws)) mods
           (fold (\<lambda>(sid, ws). dict_modify sid (write_scores ws)) mods S)
         = fold (\<lambda>(sid, ws). dict_modify sid (write_scores ws)) mods S"
proof -
  let ?G = "fold (\<lambda>(sid, ws). dict_modify sid (write_scores ws)) mods"
  let ?W = "\<lambda>k. concat (map snd (filter (\<lambda>m. fst m = k) mods))"
  have G: "?G S = map (\<lambda>(k, st). (k, write_scores (?W k) st)) S"
    by (rule fold_writes_distinct [OF assms])
  have d: "distinct (map fst (?G S))"
    unfolding G using assms by (simp add: o_def split_def)
  have "?G (?G S) = map (\<lambda>(k, st). (k, write_scores (?W k) st)) (?G S)"
    by (rule fold_writes_distinct [OF d])
  also have "\<dots> = map (\<lambda>(k, st). (k, write_scores (?W k) (write_scores (?W k) st))) S"
    by (subst G) (simp add: split_def o_def)
  also have "\<dots> = ?G S"
    by (simp only: write_scores_idem G)
  finally show ?thesis .
qed

text \<open>
  Claim C9. Ingesting the same wide-format input twice in succession leaves the students
  and their scores exactly as ingesting it once does: every cell is written last-write-wins,
  so the second pass writes each recorded score again with the same value and changes
  neither a value nor the order of the keys.
\<close>

theorem wide_reingestion_idempotent:
  assumes "wide_format rows" and "wf_course c"
  shows "students (crs (bulk_import_grades_csv to_float rows
                          (crs (bulk_import_grades_csv to_float rows c))))
         = students (crs (bulk_import_grades_csv to_float rows c))"
proof -
  let ?names = "tl (map strip (hd rows))"
  from students_fold_wide_row_writes [of to_float ?names "tl rows"]
  obtain mods where mods: "\<And>s. students (crs (fold (wide_row to_float ?names) (tl rows) s))
             = fold (\<lambda>(sid, ws). dict_modify sid (write_scores ws)) mods (students (crs s))"
    by blast
  have once: "students (crs (bulk_import_grades_csv to_float rows c'))
      = fold (\<lambda>(sid, ws). dict_modify sid (write_scores ws)) mods (students c')" for c'
    by (simp add: bulk_import_wide [OF assms(1)] mods)
  from assms(2) have "distinct (map fst (students c))" by (simp add: wf_course_def)
  from fold_writes_idem [OF this, of mods] show ?thesis
    by (simp only: once)
qed

theorem wide_reingestion_idempotent_witness:
  "wide_format wide_example_rows \<and> wf_course demo_course
   \<and> students (crs (bulk_import_grades_csv decimal_float wide_example_rows
                      (crs (bulk_import_grades_csv decimal_float wide_example_rows demo_course))))
       = students (crs (bulk_import_grades_csv decimal_float wide_example_rows demo_course))
   \<and> map (\<lambda>(k, st). scores st)
         (students (crs (bulk_import_grades_csv decimal_float wide_example_rows demo_course)))
       = [[(''HW1'', 15), (''Exam'', 85), (''Quiz'', 7)],
          [(''HW1'', 12), (''Exam'', 70)],
          [(''HW1'', 19), (''Exam'', 95)]]"
proof -
  have w: "wide_format wide_example_rows"
    by code_simp
  have wf: "wf_course demo_course"
    by (simp add: wf_course_def demo_course_def)
  have sc: "map (\<lambda>(k, st). scores st)
         (students (crs (bulk_import_grades_csv decimal_float wide_example_rows demo_course)))
       = [[(''HW1'', 15), (''Exam'', 85), (''Quiz'', 7)],
          [(''HW1'', 12), (''Exam'', 70)],
          [(''HW1'', 19), (''Exam'', 95)]]"
    by code_simp
  from wide_reingestion_idempotent [OF w wf, of decimal_float] w wf sc show ?thesis
    by blast
qed

end
